theory Spec2Isabelle
  imports Main
begin

section \<open>htmlPy.base_gui: the script constants\<close>

text \<open>
  The module-level constants of \<^verbatim>\<open>base_gui.py\<close> (lines 11 to 23). Python joins the
  pieces of a constant with \<^verbatim>\<open>+\<close>; the model joins the same pieces with \<open>@\<close>. Two
  single quotes in a row cannot be written inside a string literal, so the empty Javascript
  string \<^verbatim>\<open>''\<close> of \<^verbatim>\<open>TEXT_SELECTION_ENABLE\<close> is spelled as two characters \<open>CHR 0x27\<close>.
\<close>

definition RIGHT_CLICK_SETTING_KEY :: string where
  "RIGHT_CLICK_SETTING_KEY = ''RIGHT_CLICK''"

definition RIGHT_CLICK_ENABLE :: string where
  "RIGHT_CLICK_ENABLE = ''document.oncontextmenu = null;''"

definition RIGHT_CLICK_DISABLE :: string where
  "RIGHT_CLICK_DISABLE = ''document.oncontextmenu = function(e) { return false; };''"

definition RIGHT_CLICK_INPUTS_ONLY :: string where
  "RIGHT_CLICK_INPUTS_ONLY = ''document.oncontextmenu = function(e) {'' @
     ''return e.target.nodeName == 'INPUT' || e.target.nodeName == 'TEXTAREA'};''"

definition TEXT_SELECTION_SETTING_KEY :: string where
  "TEXT_SELECTION_SETTING_KEY = ''TEXT_SELECTION''"

definition TEXT_SELECTION_ENABLE :: string where
  "TEXT_SELECTION_ENABLE = ''document.onselectstart = null;'' @
     (''document.body.style.webkitUserSelect = '' @ [CHR 0x27, CHR 0x27] @ '';'') @
     (''document.body.style.cursor = '' @ [CHR 0x27, CHR 0x27] @ '';'')"

definition TEXT_SELECTION_DISABLE :: string where
  "TEXT_SELECTION_DISABLE = ''document.onselectstart = function(e) '' @
     ''{ return false; }; document.body.style.webkitUserSelect = 'none';'' @
     ''document.body.style.cursor = 'default';''"

section \<open>Python values and containers used by the module\<close>

text \<open>
  The value a Python call returns where the source tests it for truth: the Qt slots
  \<^verbatim>\<open>showNormal\<close> and \<^verbatim>\<open>showMaximized\<close> are \<^verbatim>\<open>void\<close>, so PyQt5 returns \<^verbatim>\<open>None\<close>
  from them. \<open>truthy\<close> is Python's \<^verbatim>\<open>bool(v)\<close>.
\<close>

datatype pyval = PyNone | PyBool bool | PyInt int | PyStr string

fun truthy :: "pyval \<Rightarrow> bool" where
  "truthy PyNone = False"
| "truthy (PyBool b) = b"
| "truthy (PyInt i) = (i \<noteq> 0)"
| "truthy (PyStr s) = (s \<noteq> [])"

text \<open>
  The exceptions: the two the module raises, each with its message, and the
  \<^verbatim>\<open>OverflowError\<close> that the Qt binding raises when an integer argument does not fit the
  C type of the parameter.
\<close>

datatype exn = ValueError string | RuntimeError string | OverflowError

datatype completion = Returned | Raised exn

text \<open>
  A Python \<^verbatim>\<open>dict\<close> with string keys and string values, as the list of its items in
  iteration order (insertion order, Python 3.7 and later). \<^verbatim>\<open>d[k] = v\<close> overwrites the
  value of a key that is present, where it stands, and appends a new key at the end;
  \<^verbatim>\<open>d.pop(k, None)\<close> removes the key if it is there and does nothing otherwise;
  \<^verbatim>\<open>d.values()\<close> lists the values in iteration order.
\<close>

type_synonym pydict = "(string \<times> string) list"

fun dict_setitem :: "string \<Rightarrow> string \<Rightarrow> pydict \<Rightarrow> pydict" where
  "dict_setitem k v [] = [(k, v)]"
| "dict_setitem k v ((k', v') # d) =
     (if k' = k then (k, v) # d else (k', v') # dict_setitem k v d)"

definition dict_pop :: "string \<Rightarrow> pydict \<Rightarrow> pydict" where
  "dict_pop k d = filter (\<lambda>item. fst item \<noteq> k) d"

definition dict_values :: "pydict \<Rightarrow> string list" where
  "dict_values d = map snd d"

definition dict_keys :: "pydict \<Rightarrow> string list" where
  "dict_keys d = map fst d"

text \<open>\<^verbatim>\<open>sep.join(xs)\<close> on a list of strings.\<close>

fun str_join :: "string \<Rightarrow> string list \<Rightarrow> string" where
  "str_join sep [] = []"
| "str_join sep [x] = x"
| "str_join sep (x # y # ys) = x @ sep @ str_join sep (y # ys)"

section \<open>The toolkit: the web-view widget and the application singleton\<close>

text \<open>
  Qt is outside the repository. The widget is modelled by the state the source reads back
  from it (window title, document title, maximized flag, web settings, signal connections)
  and by the list of mutating calls made on it, in order, so that theorems can say which
  calls an operation makes and which it does not.
\<close>

datatype web_attribute =
  LocalContentCanAccessRemoteUrls | PluginsEnabled | DeveloperExtrasEnabled

datatype qt_call =
    SetWindowTitle string
  | SetAttribute web_attribute bool
  | ShowMaximized
  | ShowNormal
  | Resize int int
  | Move int int
  | EvaluateJavaScript string

text \<open>The bound methods the source connects to signals.\<close>

datatype Browser_slot = Slot_adjustTitle

datatype BaseGUI_slot = Slot_javascript_setting_call

record Browser =
  qt_windowTitle :: string
  qt_title :: string
  qt_isMaximized :: bool
  qt_attributes :: "web_attribute \<Rightarrow> bool"
  titleChanged :: "Browser_slot list"
  loadFinished :: "BaseGUI_slot list"
  qt_calls :: "qt_call list"

text \<open>\<^verbatim>\<open>QWebView.__init__\<close>: a fresh widget, nothing set, nothing connected.\<close>

definition QWebView_init :: Browser where
  "QWebView_init =
     \<lparr>qt_windowTitle = [], qt_title = [], qt_isMaximized = False,
      qt_attributes = (\<lambda>a. False), titleChanged = [], loadFinished = [], qt_calls = []\<rparr>"

definition QWidget_setWindowTitle :: "string \<Rightarrow> Browser \<Rightarrow> Browser" where
  "QWidget_setWindowTitle t w =
     w\<lparr>qt_windowTitle := t, qt_calls := qt_calls w @ [SetWindowTitle t]\<rparr>"

definition QWidget_windowTitle :: "Browser \<Rightarrow> string" where
  "QWidget_windowTitle w = qt_windowTitle w"

definition QWebView_title :: "Browser \<Rightarrow> string" where
  "QWebView_title w = qt_title w"

definition QWidget_isMaximized :: "Browser \<Rightarrow> bool" where
  "QWidget_isMaximized w = qt_isMaximized w"

definition QWidget_showMaximized :: "Browser \<Rightarrow> pyval \<times> Browser" where
  "QWidget_showMaximized w =
     (PyNone, w\<lparr>qt_isMaximized := True, qt_calls := qt_calls w @ [ShowMaximized]\<rparr>)"

definition QWidget_showNormal :: "Browser \<Rightarrow> pyval \<times> Browser" where
  "QWidget_showNormal w =
     (PyNone, w\<lparr>qt_isMaximized := False, qt_calls := qt_calls w @ [ShowNormal]\<rparr>)"

text \<open>
  \<^verbatim>\<open>QWidget.resize(int, int)\<close> and \<^verbatim>\<open>QWidget.move(int, int)\<close> take C integers of 32
  bits. The binding converts the Python integers before it calls the widget: an argument
  outside the range raises \<^verbatim>\<open>OverflowError\<close> and the widget is not called.
\<close>

definition c_int :: "int \<Rightarrow> bool" where
  "c_int i = (- 2147483648 \<le> i \<and> i \<le> 2147483647)"

definition QWidget_resize :: "int \<Rightarrow> int \<Rightarrow> Browser \<Rightarrow> exn + Browser" where
  "QWidget_resize wd ht w =
     (if c_int wd \<and> c_int ht then Inr (w\<lparr>qt_calls := qt_calls w @ [Resize wd ht]\<rparr>)
      else Inl OverflowError)"

definition QWidget_move :: "int \<Rightarrow> int \<Rightarrow> Browser \<Rightarrow> exn + Browser" where
  "QWidget_move x y w =
     (if c_int x \<and> c_int y then Inr (w\<lparr>qt_calls := qt_calls w @ [Move x y]\<rparr>)
      else Inl OverflowError)"

definition QWebSettings_setAttribute :: "web_attribute \<Rightarrow> bool \<Rightarrow> Browser \<Rightarrow> Browser" where
  "QWebSettings_setAttribute a b w =
     w\<lparr>qt_attributes := (qt_attributes w)(a := b), qt_calls := qt_calls w @ [SetAttribute a b]\<rparr>"

definition QWebSettings_testAttribute :: "web_attribute \<Rightarrow> Browser \<Rightarrow> bool" where
  "QWebSettings_testAttribute a w = qt_attributes w a"

definition QWebFrame_evaluateJavaScript :: "string \<Rightarrow> Browser \<Rightarrow> Browser" where
  "QWebFrame_evaluateJavaScript js w = w\<lparr>qt_calls := qt_calls w @ [EvaluateJavaScript js]\<rparr>"

text \<open>
  The process-wide \<^verbatim>\<open>QApplication\<close>: \<^verbatim>\<open>QApplication.instance()\<close> is the existing
  object or \<^verbatim>\<open>None\<close>; \<^verbatim>\<open>QApplication(sys.argv)\<close> makes a new object and registers it.
  An object is identified by the number of objects made before it.
\<close>

type_synonym qapp = nat

record process =
  QApplication_instance :: "qapp option"
  QApplication_made :: nat

definition QApplication_new :: "process \<Rightarrow> qapp \<times> process" where
  "QApplication_new p =
     (QApplication_made p,
      p\<lparr>QApplication_instance := Some (QApplication_made p),
        QApplication_made := Suc (QApplication_made p)\<rparr>)"

section \<open>The modules \<^verbatim>\<open>settings\<close> and \<^verbatim>\<open>descriptors\<close>\<close>

text \<open>
  \<^verbatim>\<open>htmlPy.settings\<close> is not among the source files: its three integer constants are
  parameters of the model.
\<close>

record settings =
  ENABLE :: int
  DISABLE :: int
  INPUTS_ONLY :: int

text \<open>
  Modelled from the spec: \<^verbatim>\<open>descriptors.LiveProperty\<close>, which is not among the source
  files. Section 4.1 of the specification: construction takes an expected value type (not
  enforced at runtime), a read function and a write function; a read calls the read
  function on the owning instance and returns its value; a write calls the write function
  on the owning instance with the new value and returns nothing. \<open>LiveProperty_get fget\<close>
  is the read of a property built with the read function \<open>fget\<close>, \<open>LiveProperty_set fset\<close>
  the write of a property built with the write function \<open>fset\<close>; what the write function
  does to the instance, an exception it lets through included, is what the write does.
\<close>

definition LiveProperty_get :: "('s \<Rightarrow> 'v) \<Rightarrow> 's \<Rightarrow> 'v" where
  "LiveProperty_get fget instance = fget instance"

definition LiveProperty_set :: "('s \<Rightarrow> 'v \<Rightarrow> 'r) \<Rightarrow> 's \<Rightarrow> 'v \<Rightarrow> 'r" where
  "LiveProperty_set fset instance v = fset instance v"

section \<open>class Browser\<close>

text \<open>
  \<^verbatim>\<open>Browser.__init__\<close> (lines 261 to 264) and \<^verbatim>\<open>Browser.adjustTitle\<close> (lines 266, 267).
  Connecting a bound method to a signal appends it to the signal's connections.
\<close>

definition adjustTitle :: "Browser \<Rightarrow> Browser" where
  "adjustTitle self = QWidget_setWindowTitle (QWebView_title self) self"

definition Browser_init :: Browser where
  "Browser_init =
     (let self = QWebView_init;
          self = QWidget_setWindowTitle ''Loading...'' self;
          self = self\<lparr>titleChanged := titleChanged self @ [Slot_adjustTitle]\<rparr>
      in self)"

fun run_Browser_slot :: "Browser_slot \<Rightarrow> Browser \<Rightarrow> Browser" where
  "run_Browser_slot Slot_adjustTitle w = adjustTitle w"

text \<open>
  The toolkit's \<^verbatim>\<open>titleChanged\<close> notification: the document title has become \<open>t\<close>, and
  every connected slot runs, in connection order.
\<close>

definition titleChanged_emit :: "string \<Rightarrow> Browser \<Rightarrow> Browser" where
  "titleChanged_emit t w = fold run_Browser_slot (titleChanged w) (w\<lparr>qt_title := t\<rparr>)"

section \<open>class BaseGUI\<close>

text \<open>
  The fields of an instance. A leading underscore of the source is written \<open>u_\<close>.
  \<^verbatim>\<open>self.web_app\<close> is a second name for the object \<^verbatim>\<open>self.window\<close> (the top-level window
  of a top-level widget is the widget) and is never used by the module, so it has no field.
\<close>

record BaseGUI =
  app :: qapp
  window :: Browser
  u_javascript_settings :: pydict
  u_width :: int
  u_height :: int
  u_x :: int
  u_y :: int

text \<open>\<^verbatim>\<open>evaluate_javascript\<close> (lines 187 to 194).\<close>

definition evaluate_javascript :: "string \<Rightarrow> BaseGUI \<Rightarrow> BaseGUI" where
  "evaluate_javascript javascript_string self =
     self\<lparr>window := QWebFrame_evaluateJavaScript javascript_string (window self)\<rparr>"

text \<open>\<^verbatim>\<open>__javascript_setting_call\<close> (lines 137 to 146).\<close>

definition javascript_setting_call :: "BaseGUI \<Rightarrow> BaseGUI" where
  "javascript_setting_call self =
     (let javascript_string = str_join '';'' (dict_values (u_javascript_settings self))
      in if length javascript_string > 0 then evaluate_javascript javascript_string self
         else self)"

text \<open>\<^verbatim>\<open>right_click_setting\<close> (lines 196 to 228).\<close>

definition right_click_setting :: "settings \<Rightarrow> int \<Rightarrow> BaseGUI \<Rightarrow> completion \<times> BaseGUI" where
  "right_click_setting cfg v self =
     (if v = ENABLE cfg then
        (let self = evaluate_javascript RIGHT_CLICK_ENABLE self
         in (Returned, self\<lparr>u_javascript_settings :=
               dict_pop RIGHT_CLICK_SETTING_KEY (u_javascript_settings self)\<rparr>))
      else if v = DISABLE cfg then
        (let self = evaluate_javascript RIGHT_CLICK_DISABLE self
         in (Returned, self\<lparr>u_javascript_settings :=
               dict_setitem RIGHT_CLICK_SETTING_KEY RIGHT_CLICK_DISABLE
                 (u_javascript_settings self)\<rparr>))
      else if v = INPUTS_ONLY cfg then
        (let self = evaluate_javascript RIGHT_CLICK_INPUTS_ONLY self
         in (Returned, self\<lparr>u_javascript_settings :=
               dict_setitem RIGHT_CLICK_SETTING_KEY RIGHT_CLICK_INPUTS_ONLY
                 (u_javascript_settings self)\<rparr>))
      else
        (Raised (ValueError (''The argument should be either '' @
                             ''htmlPy.settings.ENABLE or '' @
                             ''htmlPy.settings.DISABLE or '' @
                             ''htmlPy.settings.INPUTS_ONLY'')), self))"

text \<open>\<^verbatim>\<open>text_selection_setting\<close> (lines 230 to 257).\<close>

definition text_selection_setting :: "settings \<Rightarrow> int \<Rightarrow> BaseGUI \<Rightarrow> completion \<times> BaseGUI" where
  "text_selection_setting cfg v self =
     (if v = ENABLE cfg then
        (let self = evaluate_javascript TEXT_SELECTION_ENABLE self
         in (Returned, self\<lparr>u_javascript_settings :=
               dict_pop TEXT_SELECTION_SETTING_KEY (u_javascript_settings self)\<rparr>))
      else if v = DISABLE cfg then
        (let self = evaluate_javascript TEXT_SELECTION_DISABLE self
         in (Returned, self\<lparr>u_javascript_settings :=
               dict_setitem TEXT_SELECTION_SETTING_KEY TEXT_SELECTION_DISABLE
                 (u_javascript_settings self)\<rparr>))
      else
        (Raised (ValueError (''The argument should be either '' @
                             ''htmlPy.settings.ENABLE or '' @
                             ''htmlPy.settings.DISABLE'')), self))"

text \<open>
  The live properties (lines 112 to 135): for each, the read function, the write function
  and the property's read and write. \<^verbatim>\<open>auto_resize\<close> (lines 148 to 156) reads
  \<^verbatim>\<open>self.maximized\<close> and the write function of \<^verbatim>\<open>maximized\<close> names \<^verbatim>\<open>auto_resize\<close>, so
  it stands between the two.

  The write function of \<^verbatim>\<open>maximized\<close> is the expression
  \<^verbatim>\<open>showMaximized() if value else showNormal() and auto_resize()\<close>: Python's \<^verbatim>\<open>and\<close>
  evaluates its right operand only when the left one is true.

  \<^verbatim>\<open>auto_resize\<close> and the write of \<^verbatim>\<open>maximized\<close> return how the call ended, with the
  instance as it is at that moment: an \<^verbatim>\<open>OverflowError\<close> of \<^verbatim>\<open>resize\<close> leaves the
  instance as it was, one of \<^verbatim>\<open>move\<close> leaves it after the \<^verbatim>\<open>resize\<close>.
\<close>

definition maximized_fget :: "BaseGUI \<Rightarrow> bool" where
  "maximized_fget instance = QWidget_isMaximized (window instance)"

definition maximized_get :: "BaseGUI \<Rightarrow> bool" where
  "maximized_get = LiveProperty_get maximized_fget"

definition auto_resize :: "BaseGUI \<Rightarrow> completion \<times> BaseGUI" where
  "auto_resize self =
     (if \<not> maximized_get self then
        (case QWidget_resize (u_width self) (u_height self) (window self) of
           Inl e \<Rightarrow> (Raised e, self)
         | Inr w \<Rightarrow>
             (let self = self\<lparr>window := w\<rparr>
              in case QWidget_move (u_x self) (u_y self) (window self) of
                   Inl e \<Rightarrow> (Raised e, self)
                 | Inr w \<Rightarrow> (Returned, self\<lparr>window := w\<rparr>)))
      else (Returned, self))"

definition maximized_fset :: "BaseGUI \<Rightarrow> bool \<Rightarrow> completion \<times> BaseGUI" where
  "maximized_fset instance v =
     (if v then
        (let (r, w) = QWidget_showMaximized (window instance)
         in (Returned, instance\<lparr>window := w\<rparr>))
      else
        (let (r, w) = QWidget_showNormal (window instance);
             instance = instance\<lparr>window := w\<rparr>
         in if truthy r then auto_resize instance else (Returned, instance)))"

definition maximized_set :: "BaseGUI \<Rightarrow> bool \<Rightarrow> completion \<times> BaseGUI" where
  "maximized_set = LiveProperty_set maximized_fset"

definition title_fget :: "BaseGUI \<Rightarrow> string" where
  "title_fget instance = QWidget_windowTitle (window instance)"

definition title_fset :: "BaseGUI \<Rightarrow> string \<Rightarrow> BaseGUI" where
  "title_fset instance v = instance\<lparr>window := QWidget_setWindowTitle v (window instance)\<rparr>"

definition title_get :: "BaseGUI \<Rightarrow> string" where
  "title_get = LiveProperty_get title_fget"

definition title_set :: "BaseGUI \<Rightarrow> string \<Rightarrow> BaseGUI" where
  "title_set = LiveProperty_set title_fset"

definition plugins_fget :: "BaseGUI \<Rightarrow> bool" where
  "plugins_fget instance = QWebSettings_testAttribute PluginsEnabled (window instance)"

definition plugins_fset :: "BaseGUI \<Rightarrow> bool \<Rightarrow> BaseGUI" where
  "plugins_fset instance v =
     instance\<lparr>window := QWebSettings_setAttribute PluginsEnabled v (window instance)\<rparr>"

definition plugins_get :: "BaseGUI \<Rightarrow> bool" where
  "plugins_get = LiveProperty_get plugins_fget"

definition plugins_set :: "BaseGUI \<Rightarrow> bool \<Rightarrow> BaseGUI" where
  "plugins_set = LiveProperty_set plugins_fset"

definition developer_mode_fget :: "BaseGUI \<Rightarrow> bool" where
  "developer_mode_fget instance =
     QWebSettings_testAttribute DeveloperExtrasEnabled (window instance)"

definition developer_mode_fset :: "BaseGUI \<Rightarrow> bool \<Rightarrow> BaseGUI" where
  "developer_mode_fset instance v =
     instance\<lparr>window := QWebSettings_setAttribute DeveloperExtrasEnabled v (window instance)\<rparr>"

definition developer_mode_get :: "BaseGUI \<Rightarrow> bool" where
  "developer_mode_get = LiveProperty_get developer_mode_fget"

definition developer_mode_set :: "BaseGUI \<Rightarrow> bool \<Rightarrow> BaseGUI" where
  "developer_mode_set = LiveProperty_set developer_mode_fset"

text \<open>
  \<^verbatim>\<open>BaseGUI.__init__\<close> (lines 72 to 105). Its keyword arguments are a record, with the
  defaults of the signature. The test of line 79 is the source's; the \<^verbatim>\<open>elif\<close> and the
  \<^verbatim>\<open>else\<close> of lines 81 to 84 are the two cases of \<^verbatim>\<open>app\<close>. \<open>init_body\<close> is lines 86
  to 105, which both cases run with the application object they chose; an exception of the
  write of \<^verbatim>\<open>maximized\<close> (line 104) or of \<^verbatim>\<open>auto_resize\<close> (line 105) ends it. The
  result is the exception raised or the instance built, with the process state after the
  call: an application object made at line 84 stays made when a later line raises.
\<close>

record init_args =
  arg_title :: string
  arg_width :: int
  arg_height :: int
  arg_x_pos :: int
  arg_y_pos :: int
  arg_maximized :: bool
  arg_plugins :: bool
  arg_developer_mode :: bool
  arg_allow_overwrite :: bool

definition default_args :: init_args where
  "default_args =
     \<lparr>arg_title = ''Application'', arg_width = 800, arg_height = 600,
      arg_x_pos = 10, arg_y_pos = 10, arg_maximized = False,
      arg_plugins = False, arg_developer_mode = False, arg_allow_overwrite = False\<rparr>"

definition init_body :: "init_args \<Rightarrow> qapp \<Rightarrow> exn + BaseGUI" where
  "init_body args a =
     (let w = Browser_init;
          w = QWebSettings_setAttribute LocalContentCanAccessRemoteUrls True w;
          w = w\<lparr>loadFinished := loadFinished w @ [Slot_javascript_setting_call]\<rparr>;
          self = \<lparr>app = a, window = w, u_javascript_settings = [],
                  u_width = arg_width args, u_height = arg_height args,
                  u_x = arg_x_pos args, u_y = arg_y_pos args\<rparr>;
          self = title_set self (arg_title args);
          self = plugins_set self (arg_plugins args);
          self = developer_mode_set self (arg_developer_mode args)
      in case maximized_set self (arg_maximized args) of
           (Raised e, self) \<Rightarrow> Inl e
         | (Returned, self) \<Rightarrow>
             (case auto_resize self of
                (Raised e, self) \<Rightarrow> Inl e
              | (Returned, self) \<Rightarrow> Inr self))"

definition BaseGUI_init :: "init_args \<Rightarrow> process \<Rightarrow> (exn + BaseGUI) \<times> process" where
  "BaseGUI_init args p =
     (let a = QApplication_instance p
      in if a \<noteq> None \<and> \<not> arg_allow_overwrite args then
           (Inl (RuntimeError ''Another htmlPy application is already running''), p)
         else
           (case a of
              Some existing \<Rightarrow> (init_body args existing, p)
            | None \<Rightarrow> (let (made, p) = QApplication_new p in (init_body args made, p))))"

text \<open>
  The toolkit's \<^verbatim>\<open>loadFinished\<close> notification runs every slot connected to the signal of
  the instance's window, in connection order; its \<^verbatim>\<open>titleChanged\<close> notification reaches
  the window of the instance.
\<close>

fun run_BaseGUI_slot :: "BaseGUI_slot \<Rightarrow> BaseGUI \<Rightarrow> BaseGUI" where
  "run_BaseGUI_slot Slot_javascript_setting_call g = javascript_setting_call g"

definition loadFinished_emit :: "BaseGUI \<Rightarrow> BaseGUI" where
  "loadFinished_emit g = fold run_BaseGUI_slot (loadFinished (window g)) g"

section \<open>The registry of script settings\<close>

text \<open>
  What the registry may hold: under the right-click key one of the two scripts that change
  the default, under the text-selection key the one script that changes the default.
\<close>

definition allowed_item :: "string \<times> string \<Rightarrow> bool" where
  "allowed_item item =
     (fst item = RIGHT_CLICK_SETTING_KEY \<and>
        (snd item = RIGHT_CLICK_DISABLE \<or> snd item = RIGHT_CLICK_INPUTS_ONLY) \<or>
      fst item = TEXT_SELECTION_SETTING_KEY \<and> snd item = TEXT_SELECTION_DISABLE)"

definition registry_inv :: "pydict \<Rightarrow> bool" where
  "registry_inv d = list_all allowed_item d"

text \<open>
  What a setter call with a value that changes the default has done, seen from outside:
  it returned, the widget received exactly one more call, the evaluation of \<open>script\<close>,
  the registry now maps \<open>key\<close> to \<open>script\<close> and every other key to what it had, the
  items under other keys stand as they stood, and a registry with distinct keys still has
  distinct keys (so \<open>key\<close> has one entry, the new one).
\<close>

definition evaluated_and_stored ::
  "string \<Rightarrow> string \<Rightarrow> BaseGUI \<Rightarrow> completion \<times> BaseGUI \<Rightarrow> bool" where
  "evaluated_and_stored key script self res =
     (fst res = Returned \<and>
      qt_calls (window (snd res)) = qt_calls (window self) @ [EvaluateJavaScript script] \<and>
      map_of (u_javascript_settings (snd res)) =
        (map_of (u_javascript_settings self))(key \<mapsto> script) \<and>
      dict_pop key (u_javascript_settings (snd res)) = dict_pop key (u_javascript_settings self) \<and>
      (distinct (dict_keys (u_javascript_settings self)) \<longrightarrow>
         distinct (dict_keys (u_javascript_settings (snd res)))))"

text \<open>
  The four geometry arguments of the constructor are integers that \<^verbatim>\<open>resize\<close> and
  \<^verbatim>\<open>move\<close> accept.
\<close>

definition geometry_fits :: "init_args \<Rightarrow> bool" where
  "geometry_fits args =
     (c_int (arg_width args) \<and> c_int (arg_height args) \<and>
      c_int (arg_x_pos args) \<and> c_int (arg_y_pos args))"

section \<open>Concrete instances\<close>

text \<open>
  A choice of the three setting constants, a process with no application object yet, the
  instance the constructor builds there from its default arguments, that instance with
  both settings overridden, and the default arguments with a width of \<open>2 ^ 31\<close>.
\<close>

definition example_settings :: settings where
  "example_settings = \<lparr>ENABLE = 1, DISABLE = 0, INPUTS_ONLY = 2\<rparr>"

definition example_process :: process where
  "example_process = \<lparr>QApplication_instance = None, QApplication_made = 0\<rparr>"

definition example_gui :: BaseGUI where
  "example_gui =
     \<lparr>app = 0,
      window = \<lparr>qt_windowTitle = ''Application'', qt_title = [], qt_isMaximized = False,
        qt_attributes = (\<lambda>a. False)(LocalContentCanAccessRemoteUrls := True,
           PluginsEnabled := False, DeveloperExtrasEnabled := False),
        titleChanged = [Slot_adjustTitle], loadFinished = [Slot_javascript_setting_call],
        qt_calls =
          [SetWindowTitle ''Loading...'', SetAttribute LocalContentCanAccessRemoteUrls True,
           SetWindowTitle ''Application'', SetAttribute PluginsEnabled False,
           SetAttribute DeveloperExtrasEnabled False, ShowNormal, Resize 800 600, Move 10 10]\<rparr>,
      u_javascript_settings = [], u_width = 800, u_height = 600, u_x = 10, u_y = 10\<rparr>"

definition example_wide_args :: init_args where
  "example_wide_args = default_args\<lparr>arg_width := 2147483648\<rparr>"

definition example_overridden :: BaseGUI where
  "example_overridden =
     example_gui\<lparr>u_javascript_settings :=
       [(RIGHT_CLICK_SETTING_KEY, RIGHT_CLICK_DISABLE),
        (TEXT_SELECTION_SETTING_KEY, TEXT_SELECTION_DISABLE)]\<rparr>"

section \<open>Dictionaries and joined strings\<close>

lemma str_join_nonempty:
  "xs \<noteq> [] \<Longrightarrow> [] \<notin> set xs \<Longrightarrow> str_join sep xs \<noteq> []"
  by (induction sep xs rule: str_join.induct) auto

lemma map_of_dict_setitem: "map_of (dict_setitem k v d) = (map_of d)(k \<mapsto> v)"
  by (induction d) (auto simp: fun_eq_iff)

lemma keys_dict_setitem: "set (dict_keys (dict_setitem k v d)) = insert k (set (dict_keys d))"
  by (induction k v d rule: dict_setitem.induct) (simp_all add: dict_keys_def insert_commute)

lemma distinct_dict_setitem:
  "distinct (dict_keys d) \<Longrightarrow> distinct (dict_keys (dict_setitem k v d))"
proof (induction d)
  case Nil
  show ?case by (simp add: dict_keys_def)
next
  case (Cons item d)
  have "set (map fst (dict_setitem k v d)) = insert k (set (map fst d))"
    using keys_dict_setitem [of k v d] by (simp add: dict_keys_def)
  with Cons show ?case
    by (cases item) (auto simp: dict_keys_def)
qed

lemma dict_pop_dict_setitem: "dict_pop k (dict_setitem k v d) = dict_pop k d"
  by (induction d) (auto simp: dict_pop_def)

lemma list_all_dict_setitem: "list_all P d \<Longrightarrow> P (k, v) \<Longrightarrow> list_all P (dict_setitem k v d)"
  by (induction d) auto

lemma list_all_dict_pop: "list_all P d \<Longrightarrow> list_all P (dict_pop k d)"
  by (simp add: dict_pop_def list_all_iff)

lemma key_dict_pop: "k \<notin> set (dict_keys (dict_pop k d))"
  by (auto simp: dict_pop_def dict_keys_def)

lemma dict_pop_idem: "dict_pop k (dict_pop k d) = dict_pop k d"
  by (simp add: dict_pop_def)

section \<open>What each operation does to the instance\<close>

lemma Browser_init_eq:
  "Browser_init =
     \<lparr>qt_windowTitle = ''Loading...'', qt_title = [], qt_isMaximized = False,
      qt_attributes = (\<lambda>a. False), titleChanged = [Slot_adjustTitle], loadFinished = [],
      qt_calls = [SetWindowTitle ''Loading...'']\<rparr>"
  by (simp add: Browser_init_def QWebView_init_def QWidget_setWindowTitle_def)

lemma title_set_eq:
  "title_set self t =
     self\<lparr>window := (window self)\<lparr>qt_windowTitle := t,
       qt_calls := qt_calls (window self) @ [SetWindowTitle t]\<rparr>\<rparr>"
  by (simp add: title_set_def LiveProperty_set_def title_fset_def QWidget_setWindowTitle_def)

lemma plugins_set_eq:
  "plugins_set self b =
     self\<lparr>window := (window self)\<lparr>qt_attributes :=
         (qt_attributes (window self))(PluginsEnabled := b),
       qt_calls := qt_calls (window self) @ [SetAttribute PluginsEnabled b]\<rparr>\<rparr>"
  by (simp add: plugins_set_def LiveProperty_set_def plugins_fset_def QWebSettings_setAttribute_def)

lemma developer_mode_set_eq:
  "developer_mode_set self b =
     self\<lparr>window := (window self)\<lparr>qt_attributes :=
         (qt_attributes (window self))(DeveloperExtrasEnabled := b),
       qt_calls := qt_calls (window self) @ [SetAttribute DeveloperExtrasEnabled b]\<rparr>\<rparr>"
  by (simp add: developer_mode_set_def LiveProperty_set_def developer_mode_fset_def
      QWebSettings_setAttribute_def)

lemma maximized_get_eq: "maximized_get self = qt_isMaximized (window self)"
  by (simp add: maximized_get_def LiveProperty_get_def maximized_fget_def QWidget_isMaximized_def)

lemma auto_resize_eq:
  "auto_resize self =
     (if qt_isMaximized (window self) then (Returned, self)
      else if \<not> (c_int (u_width self) \<and> c_int (u_height self)) then (Raised OverflowError, self)
      else if \<not> (c_int (u_x self) \<and> c_int (u_y self)) then
        (Raised OverflowError,
         self\<lparr>window := (window self)\<lparr>qt_calls := qt_calls (window self) @
             [Resize (u_width self) (u_height self)]\<rparr>\<rparr>)
      else
        (Returned,
         self\<lparr>window := (window self)\<lparr>qt_calls := qt_calls (window self) @
             [Resize (u_width self) (u_height self), Move (u_x self) (u_y self)]\<rparr>\<rparr>))"
  by (simp add: auto_resize_def maximized_get_eq QWidget_resize_def QWidget_move_def Let_def)

lemma maximized_set_eq:
  "maximized_set self b =
     (Returned,
      self\<lparr>window := (window self)\<lparr>qt_isMaximized := b,
        qt_calls := qt_calls (window self) @ [if b then ShowMaximized else ShowNormal]\<rparr>\<rparr>)"
  by (simp add: maximized_set_def LiveProperty_set_def maximized_fset_def QWidget_showNormal_def
      QWidget_showMaximized_def)

lemma init_body_split:
  "init_body args a =
     (case auto_resize
        \<lparr>app = a,
          window = \<lparr>qt_windowTitle = arg_title args, qt_title = [],
            qt_isMaximized = arg_maximized args,
            qt_attributes = (\<lambda>a. False)(LocalContentCanAccessRemoteUrls := True,
               PluginsEnabled := arg_plugins args,
               DeveloperExtrasEnabled := arg_developer_mode args),
            titleChanged = [Slot_adjustTitle], loadFinished = [Slot_javascript_setting_call],
            qt_calls =
              [SetWindowTitle ''Loading...'', SetAttribute LocalContentCanAccessRemoteUrls True,
               SetWindowTitle (arg_title args), SetAttribute PluginsEnabled (arg_plugins args),
               SetAttribute DeveloperExtrasEnabled (arg_developer_mode args),
               if arg_maximized args then ShowMaximized else ShowNormal]\<rparr>,
          u_javascript_settings = [],
          u_width = arg_width args, u_height = arg_height args,
          u_x = arg_x_pos args, u_y = arg_y_pos args\<rparr> of
        (Raised e, self) \<Rightarrow> Inl e
      | (Returned, self) \<Rightarrow> Inr self)"
  by (simp add: init_body_def Browser_init_eq QWebSettings_setAttribute_def title_set_eq
      plugins_set_eq developer_mode_set_eq maximized_set_eq)

lemma init_body_eq:
  "init_body args a =
     (if arg_maximized args \<or> geometry_fits args then
        Inr \<lparr>app = a,
          window = \<lparr>qt_windowTitle = arg_title args, qt_title = [],
            qt_isMaximized = arg_maximized args,
            qt_attributes = (\<lambda>a. False)(LocalContentCanAccessRemoteUrls := True,
               PluginsEnabled := arg_plugins args,
               DeveloperExtrasEnabled := arg_developer_mode args),
            titleChanged = [Slot_adjustTitle], loadFinished = [Slot_javascript_setting_call],
            qt_calls =
              [SetWindowTitle ''Loading...'', SetAttribute LocalContentCanAccessRemoteUrls True,
               SetWindowTitle (arg_title args), SetAttribute PluginsEnabled (arg_plugins args),
               SetAttribute DeveloperExtrasEnabled (arg_developer_mode args)] @
              (if arg_maximized args then [ShowMaximized]
               else [ShowNormal, Resize (arg_width args) (arg_height args),
                     Move (arg_x_pos args) (arg_y_pos args)])\<rparr>,
          u_javascript_settings = [],
          u_width = arg_width args, u_height = arg_height args,
          u_x = arg_x_pos args, u_y = arg_y_pos args\<rparr>
      else Inl OverflowError)"
  by (simp add: init_body_split auto_resize_eq geometry_fits_def)

lemma init_body_Inr:
  assumes "init_body args a = Inr self"
  shows "self =
     \<lparr>app = a,
      window = \<lparr>qt_windowTitle = arg_title args, qt_title = [],
        qt_isMaximized = arg_maximized args,
        qt_attributes = (\<lambda>a. False)(LocalContentCanAccessRemoteUrls := True,
           PluginsEnabled := arg_plugins args, DeveloperExtrasEnabled := arg_developer_mode args),
        titleChanged = [Slot_adjustTitle], loadFinished = [Slot_javascript_setting_call],
        qt_calls =
          [SetWindowTitle ''Loading...'', SetAttribute LocalContentCanAccessRemoteUrls True,
           SetWindowTitle (arg_title args), SetAttribute PluginsEnabled (arg_plugins args),
           SetAttribute DeveloperExtrasEnabled (arg_developer_mode args)] @
          (if arg_maximized args then [ShowMaximized]
           else [ShowNormal, Resize (arg_width args) (arg_height args),
                 Move (arg_x_pos args) (arg_y_pos args)])\<rparr>,
      u_javascript_settings = [],
      u_width = arg_width args, u_height = arg_height args,
      u_x = arg_x_pos args, u_y = arg_y_pos args\<rparr>"
  using assms by (simp add: init_body_eq split: if_splits)

lemma init_body_fits:
  "arg_maximized args \<or> geometry_fits args \<Longrightarrow>
   \<exists>self. init_body args a = Inr self \<and> app self = a"
  by (simp add: init_body_eq)

lemma init_body_overflow:
  "\<not> (arg_maximized args \<or> geometry_fits args) \<Longrightarrow> init_body args a = Inl OverflowError"
  by (simp add: init_body_eq)

lemma init_body_default: "init_body default_args 0 = Inr example_gui"
  by (simp add: init_body_eq default_args_def geometry_fits_def c_int_def example_gui_def)

lemma BaseGUI_init_cases:
  "BaseGUI_init args p =
     (case QApplication_instance p of
        Some existing \<Rightarrow>
          if arg_allow_overwrite args then (init_body args existing, p)
          else (Inl (RuntimeError ''Another htmlPy application is already running''), p)
      | None \<Rightarrow> (init_body args (QApplication_made p), snd (QApplication_new p)))"
  by (simp add: BaseGUI_init_def Let_def QApplication_new_def split: option.splits)

lemma BaseGUI_init_Inr:
  "BaseGUI_init args p = (Inr self, p') \<Longrightarrow> \<exists>a. init_body args a = Inr self"
  by (auto simp: BaseGUI_init_cases split: option.splits if_splits)

lemma BaseGUI_init_default:
  "BaseGUI_init default_args example_process =
     (Inr example_gui, \<lparr>QApplication_instance = Some 0, QApplication_made = 1\<rparr>)"
  by (simp add: BaseGUI_init_cases example_process_def init_body_default QApplication_new_def)

lemma qt_calls_evaluate_javascript:
  "qt_calls (window (evaluate_javascript js self)) = qt_calls (window self) @ [EvaluateJavaScript js]"
  by (simp add: evaluate_javascript_def QWebFrame_evaluateJavaScript_def)

lemma settings_evaluate_javascript:
  "u_javascript_settings (evaluate_javascript js self) = u_javascript_settings self"
  by (simp add: evaluate_javascript_def)

lemma javascript_setting_call_eq:
  "javascript_setting_call self =
     (if str_join '';'' (dict_values (u_javascript_settings self)) = [] then self
      else evaluate_javascript (str_join '';'' (dict_values (u_javascript_settings self))) self)"
  by (simp add: javascript_setting_call_def Let_def)

lemma right_click_ENABLE:
  "right_click_setting cfg (ENABLE cfg) self =
     (Returned, (evaluate_javascript RIGHT_CLICK_ENABLE self)\<lparr>u_javascript_settings :=
        dict_pop RIGHT_CLICK_SETTING_KEY (u_javascript_settings self)\<rparr>)"
  by (simp add: right_click_setting_def Let_def settings_evaluate_javascript)

lemma text_selection_ENABLE:
  "text_selection_setting cfg (ENABLE cfg) self =
     (Returned, (evaluate_javascript TEXT_SELECTION_ENABLE self)\<lparr>u_javascript_settings :=
        dict_pop TEXT_SELECTION_SETTING_KEY (u_javascript_settings self)\<rparr>)"
  by (simp add: text_selection_setting_def Let_def settings_evaluate_javascript)

lemma setitem_branch:
  "evaluated_and_stored key script self
     (Returned, (evaluate_javascript script self)\<lparr>u_javascript_settings :=
        dict_setitem key script (u_javascript_settings (evaluate_javascript script self))\<rparr>)"
  by (simp add: evaluated_and_stored_def qt_calls_evaluate_javascript
      settings_evaluate_javascript map_of_dict_setitem dict_pop_dict_setitem
      distinct_dict_setitem)

section \<open>The registry invariant\<close>

lemma allowed_item_nonempty: "allowed_item item \<Longrightarrow> snd item \<noteq> []"
  by (auto simp: allowed_item_def RIGHT_CLICK_DISABLE_def RIGHT_CLICK_INPUTS_ONLY_def
      TEXT_SELECTION_DISABLE_def)

lemma registry_inv_scripts_nonempty: "registry_inv d \<Longrightarrow> [] \<notin> set (dict_values d)"
proof
  assume inv: "registry_inv d" and "[] \<in> set (dict_values d)"
  then obtain item where "item \<in> set d" "snd item = []"
    by (auto simp: dict_values_def)
  with inv show False
    using allowed_item_nonempty [of item] by (simp add: registry_inv_def list_all_iff)
qed

lemma registry_inv_right_click:
  "registry_inv (u_javascript_settings self) \<Longrightarrow>
   registry_inv (u_javascript_settings (snd (right_click_setting cfg v self)))"
  by (simp add: right_click_setting_def Let_def settings_evaluate_javascript registry_inv_def
      list_all_dict_pop list_all_dict_setitem allowed_item_def)

lemma registry_inv_text_selection:
  "registry_inv (u_javascript_settings self) \<Longrightarrow>
   registry_inv (u_javascript_settings (snd (text_selection_setting cfg v self)))"
  by (simp add: text_selection_setting_def Let_def settings_evaluate_javascript registry_inv_def
      list_all_dict_pop list_all_dict_setitem allowed_item_def)

lemma allowed_item_not_enabling:
  "allowed_item item \<Longrightarrow> snd item \<noteq> RIGHT_CLICK_ENABLE \<and> snd item \<noteq> TEXT_SELECTION_ENABLE"
  by (auto simp: allowed_item_def RIGHT_CLICK_ENABLE_def TEXT_SELECTION_ENABLE_def
      RIGHT_CLICK_DISABLE_def RIGHT_CLICK_INPUTS_ONLY_def TEXT_SELECTION_DISABLE_def)

lemma allowed_item_keys:
  "allowed_item item \<Longrightarrow>
     (fst item = ''RIGHT_CLICK'' \<and>
        (snd item = RIGHT_CLICK_DISABLE \<or> snd item = RIGHT_CLICK_INPUTS_ONLY)) \<or>
     (fst item = ''TEXT_SELECTION'' \<and> snd item = TEXT_SELECTION_DISABLE)"
  by (auto simp: allowed_item_def RIGHT_CLICK_SETTING_KEY_def TEXT_SELECTION_SETTING_KEY_def)

lemma registry_inv_example_overridden: "registry_inv (u_javascript_settings example_overridden)"
  by (simp add: example_overridden_def registry_inv_def allowed_item_def)

section \<open>Replay of the registry when a page has loaded\<close>

text \<open>
  C1. When the \<^verbatim>\<open>loadFinished\<close> notification fires, the replay callback joins all the
  script strings stored in the registry with \<^verbatim>\<open>;\<close> and evaluates the result in a single
  \<^verbatim>\<open>evaluate_javascript\<close> call; with an empty registry it makes no call at all.

  The callback tests the joined string, not the registry: with an empty registry the instance
  is returned as it was; with a registry that is not empty and holds no empty script, the
  widget receives exactly one more call, the evaluation of the joined string. No registry
  that satisfies the invariant of the setters holds an empty script. The notification runs
  the callback, and nothing else, on an instance whose connections are the constructor's.
\<close>

theorem replay_on_load_finished:
  "(u_javascript_settings self = [] \<longrightarrow> javascript_setting_call self = self) \<and>
   (u_javascript_settings self \<noteq> [] \<and> [] \<notin> set (dict_values (u_javascript_settings self)) \<longrightarrow>
      javascript_setting_call self =
        evaluate_javascript (str_join '';'' (dict_values (u_javascript_settings self))) self \<and>
      qt_calls (window (javascript_setting_call self)) =
        qt_calls (window self) @
          [EvaluateJavaScript (str_join '';'' (dict_values (u_javascript_settings self)))]) \<and>
   (registry_inv (u_javascript_settings self) \<longrightarrow>
      [] \<notin> set (dict_values (u_javascript_settings self))) \<and>
   (loadFinished (window self) = [Slot_javascript_setting_call] \<longrightarrow>
      loadFinished_emit self = javascript_setting_call self)"
proof (intro conjI impI)
  assume "u_javascript_settings self = []"
  then show "javascript_setting_call self = self"
    by (simp add: javascript_setting_call_eq dict_values_def)
next
  assume h: "u_javascript_settings self \<noteq> [] \<and> [] \<notin> set (dict_values (u_javascript_settings self))"
  then have "dict_values (u_javascript_settings self) \<noteq> []"
    by (simp add: dict_values_def)
  with h have ne: "str_join '';'' (dict_values (u_javascript_settings self)) \<noteq> []"
    by (simp add: str_join_nonempty)
  then show run: "javascript_setting_call self =
      evaluate_javascript (str_join '';'' (dict_values (u_javascript_settings self))) self"
    by (simp add: javascript_setting_call_eq)
  show "qt_calls (window (javascript_setting_call self)) =
        qt_calls (window self) @
          [EvaluateJavaScript (str_join '';'' (dict_values (u_javascript_settings self)))]"
    by (simp only: run qt_calls_evaluate_javascript)
next
  assume "registry_inv (u_javascript_settings self)"
  then show "[] \<notin> set (dict_values (u_javascript_settings self))"
    by (rule registry_inv_scripts_nonempty)
next
  assume "loadFinished (window self) = [Slot_javascript_setting_call]"
  then show "loadFinished_emit self = javascript_setting_call self"
    by (simp add: loadFinished_emit_def)
qed

text \<open>
  On the instance built from the defaults nothing is evaluated; with both settings
  overridden the two scripts are evaluated as one string.
\<close>

theorem replay_on_load_finished_witness:
  "u_javascript_settings example_gui = [] \<and>
   loadFinished (window example_gui) = [Slot_javascript_setting_call] \<and>
   loadFinished_emit example_gui = example_gui \<and>
   u_javascript_settings example_overridden \<noteq> [] \<and>
   registry_inv (u_javascript_settings example_overridden) \<and>
   [] \<notin> set (dict_values (u_javascript_settings example_overridden)) \<and>
   loadFinished (window example_overridden) = [Slot_javascript_setting_call] \<and>
   qt_calls (window (loadFinished_emit example_overridden)) =
     qt_calls (window example_overridden) @
       [EvaluateJavaScript
          (''document.oncontextmenu = function(e) { return false; };'' @ '';'' @
           ''document.onselectstart = function(e) { return false; }; document.body.style.webkitUserSelect = 'none';document.body.style.cursor = 'default';'')]"
proof -
  have e: "u_javascript_settings example_gui = []"
    "loadFinished (window example_gui) = [Slot_javascript_setting_call]"
    by (simp_all add: example_gui_def)
  have o: "u_javascript_settings example_overridden \<noteq> []"
    "loadFinished (window example_overridden) = [Slot_javascript_setting_call]"
    by (simp_all add: example_overridden_def example_gui_def)
  have j: "str_join '';'' (dict_values (u_javascript_settings example_overridden)) =
      ''document.oncontextmenu = function(e) { return false; };'' @ '';'' @
      ''document.onselectstart = function(e) { return false; }; document.body.style.webkitUserSelect = 'none';document.body.style.cursor = 'default';''"
    by (simp add: example_overridden_def dict_values_def RIGHT_CLICK_DISABLE_def
        TEXT_SELECTION_DISABLE_def)
  note inv = registry_inv_example_overridden
  note empty = replay_on_load_finished [of example_gui]
  note full = replay_on_load_finished [of example_overridden]
  have r1: "loadFinished_emit example_gui = example_gui"
    using empty e by simp
  have ne: "[] \<notin> set (dict_values (u_javascript_settings example_overridden))"
    using full inv by blast
  have c: "loadFinished_emit example_overridden = javascript_setting_call example_overridden"
    using full o by blast
  have "qt_calls (window (javascript_setting_call example_overridden)) =
      qt_calls (window example_overridden) @
        [EvaluateJavaScript (str_join '';'' (dict_values (u_javascript_settings example_overridden)))]"
    using full o ne by blast
  then have r2: "qt_calls (window (loadFinished_emit example_overridden)) =
      qt_calls (window example_overridden) @
        [EvaluateJavaScript
          (''document.oncontextmenu = function(e) { return false; };'' @ '';'' @
           ''document.onselectstart = function(e) { return false; }; document.body.style.webkitUserSelect = 'none';document.body.style.cursor = 'default';'')]"
    by (simp only: j c)
  from e o inv ne r1 r2 show ?thesis
    by blast
qed

section \<open>The two setters\<close>

text \<open>
  C2. A value other than \<^verbatim>\<open>ENABLE\<close>, \<^verbatim>\<open>DISABLE\<close>, \<^verbatim>\<open>INPUTS_ONLY\<close> passed to
  \<^verbatim>\<open>right_click_setting\<close>, or other than \<^verbatim>\<open>ENABLE\<close>, \<^verbatim>\<open>DISABLE\<close> passed to
  \<^verbatim>\<open>text_selection_setting\<close>, raises \<^verbatim>\<open>ValueError\<close> with a message that names the
  allowed values; the instance after the call is the instance before it, so the registry is
  as it was and the widget has received no call.
\<close>

theorem invalid_value_raises:
  "(v \<notin> {ENABLE cfg, DISABLE cfg, INPUTS_ONLY cfg} \<longrightarrow>
      right_click_setting cfg v self =
        (Raised (ValueError
           ''The argument should be either htmlPy.settings.ENABLE or htmlPy.settings.DISABLE or htmlPy.settings.INPUTS_ONLY''),
         self)) \<and>
   (v \<notin> {ENABLE cfg, DISABLE cfg} \<longrightarrow>
      text_selection_setting cfg v self =
        (Raised (ValueError
           ''The argument should be either htmlPy.settings.ENABLE or htmlPy.settings.DISABLE''),
         self))"
  by (simp add: right_click_setting_def text_selection_setting_def)

text \<open>The values 7 for the right-click setter and 2 for the text-selection setter.\<close>

theorem invalid_value_raises_witness:
  "(7::int) \<notin> {ENABLE example_settings, DISABLE example_settings, INPUTS_ONLY example_settings} \<and>
   right_click_setting example_settings 7 example_overridden =
     (Raised (ValueError
        ''The argument should be either htmlPy.settings.ENABLE or htmlPy.settings.DISABLE or htmlPy.settings.INPUTS_ONLY''),
      example_overridden) \<and>
   (2::int) \<notin> {ENABLE example_settings, DISABLE example_settings} \<and>
   text_selection_setting example_settings 2 example_overridden =
     (Raised (ValueError
        ''The argument should be either htmlPy.settings.ENABLE or htmlPy.settings.DISABLE''),
      example_overridden)"
  using invalid_value_raises [of 7 example_settings example_overridden]
    invalid_value_raises [of 2 example_settings example_overridden]
  by (simp add: example_settings_def)

text \<open>
  C3. For each value that changes the default (\<^verbatim>\<open>DISABLE\<close> and \<^verbatim>\<open>INPUTS_ONLY\<close> for
  right-click, \<^verbatim>\<open>DISABLE\<close> for text selection), the setter evaluates the script of that
  value at once and stores the same script in the registry under the key of the setting, in
  place of any entry the key had. The three constants of \<^verbatim>\<open>htmlPy.settings\<close> are taken to
  be distinct.
\<close>

theorem override_evaluated_and_stored:
  assumes "distinct [ENABLE cfg, DISABLE cfg, INPUTS_ONLY cfg]"
  shows "evaluated_and_stored ''RIGHT_CLICK''
           ''document.oncontextmenu = function(e) { return false; };'' self
           (right_click_setting cfg (DISABLE cfg) self) \<and>
         evaluated_and_stored ''RIGHT_CLICK''
           ''document.oncontextmenu = function(e) {return e.target.nodeName == 'INPUT' || e.target.nodeName == 'TEXTAREA'};'' self
           (right_click_setting cfg (INPUTS_ONLY cfg) self) \<and>
         evaluated_and_stored ''TEXT_SELECTION''
           ''document.onselectstart = function(e) { return false; }; document.body.style.webkitUserSelect = 'none';document.body.style.cursor = 'default';'' self
           (text_selection_setting cfg (DISABLE cfg) self)"
proof (intro conjI)
  from assms have ne: "DISABLE cfg \<noteq> ENABLE cfg" "INPUTS_ONLY cfg \<noteq> ENABLE cfg"
    "INPUTS_ONLY cfg \<noteq> DISABLE cfg"
    by auto
  have "right_click_setting cfg (DISABLE cfg) self =
      (Returned, (evaluate_javascript RIGHT_CLICK_DISABLE self)\<lparr>u_javascript_settings :=
        dict_setitem RIGHT_CLICK_SETTING_KEY RIGHT_CLICK_DISABLE
          (u_javascript_settings (evaluate_javascript RIGHT_CLICK_DISABLE self))\<rparr>)"
    using ne by (simp add: right_click_setting_def Let_def)
  then show "evaluated_and_stored ''RIGHT_CLICK''
           ''document.oncontextmenu = function(e) { return false; };'' self
           (right_click_setting cfg (DISABLE cfg) self)"
    using setitem_branch [of RIGHT_CLICK_SETTING_KEY RIGHT_CLICK_DISABLE self]
    by (simp add: RIGHT_CLICK_SETTING_KEY_def RIGHT_CLICK_DISABLE_def)
  have "right_click_setting cfg (INPUTS_ONLY cfg) self =
      (Returned, (evaluate_javascript RIGHT_CLICK_INPUTS_ONLY self)\<lparr>u_javascript_settings :=
        dict_setitem RIGHT_CLICK_SETTING_KEY RIGHT_CLICK_INPUTS_ONLY
          (u_javascript_settings (evaluate_javascript RIGHT_CLICK_INPUTS_ONLY self))\<rparr>)"
    using ne by (simp add: right_click_setting_def Let_def)
  then show "evaluated_and_stored ''RIGHT_CLICK''
           ''document.oncontextmenu = function(e) {return e.target.nodeName == 'INPUT' || e.target.nodeName == 'TEXTAREA'};'' self
           (right_click_setting cfg (INPUTS_ONLY cfg) self)"
    using setitem_branch [of RIGHT_CLICK_SETTING_KEY RIGHT_CLICK_INPUTS_ONLY self]
    by (simp add: RIGHT_CLICK_SETTING_KEY_def RIGHT_CLICK_INPUTS_ONLY_def)
  have "text_selection_setting cfg (DISABLE cfg) self =
      (Returned, (evaluate_javascript TEXT_SELECTION_DISABLE self)\<lparr>u_javascript_settings :=
        dict_setitem TEXT_SELECTION_SETTING_KEY TEXT_SELECTION_DISABLE
          (u_javascript_settings (evaluate_javascript TEXT_SELECTION_DISABLE self))\<rparr>)"
    using ne by (simp add: text_selection_setting_def Let_def)
  then show "evaluated_and_stored ''TEXT_SELECTION''
           ''document.onselectstart = function(e) { return false; }; document.body.style.webkitUserSelect = 'none';document.body.style.cursor = 'default';'' self
           (text_selection_setting cfg (DISABLE cfg) self)"
    using setitem_branch [of TEXT_SELECTION_SETTING_KEY TEXT_SELECTION_DISABLE self]
    by (simp add: TEXT_SELECTION_SETTING_KEY_def TEXT_SELECTION_DISABLE_def)
qed

text \<open>
  \<^verbatim>\<open>INPUTS_ONLY\<close> on an instance whose registry already holds the \<^verbatim>\<open>DISABLE\<close> script
  under the right-click key.
\<close>

theorem override_evaluated_and_stored_witness:
  "distinct [ENABLE example_settings, DISABLE example_settings, INPUTS_ONLY example_settings] \<and>
   distinct (dict_keys (u_javascript_settings example_overridden)) \<and>
   fst (right_click_setting example_settings 2 example_overridden) = Returned \<and>
   map_of (u_javascript_settings (snd (right_click_setting example_settings 2 example_overridden)))
       ''RIGHT_CLICK'' =
     Some ''document.oncontextmenu = function(e) {return e.target.nodeName == 'INPUT' || e.target.nodeName == 'TEXTAREA'};'' \<and>
   distinct (dict_keys (u_javascript_settings
     (snd (right_click_setting example_settings 2 example_overridden)))) \<and>
   qt_calls (window (snd (right_click_setting example_settings 2 example_overridden))) =
     qt_calls (window example_overridden) @
       [EvaluateJavaScript ''document.oncontextmenu = function(e) {return e.target.nodeName == 'INPUT' || e.target.nodeName == 'TEXTAREA'};'']"
proof -
  have d: "distinct [ENABLE example_settings, DISABLE example_settings, INPUTS_ONLY example_settings]"
    by (simp add: example_settings_def)
  have k: "distinct (dict_keys (u_javascript_settings example_overridden))"
    by (simp add: example_overridden_def dict_keys_def RIGHT_CLICK_SETTING_KEY_def
        TEXT_SELECTION_SETTING_KEY_def)
  have i: "INPUTS_ONLY example_settings = 2"
    by (simp add: example_settings_def)
  show ?thesis
    using override_evaluated_and_stored [OF d, of example_overridden] d k
    by (simp add: evaluated_and_stored_def i)
qed

text \<open>
  C5. \<^verbatim>\<open>right_click_setting(ENABLE)\<close> twice in a row: the first call returns and leaves
  the registry without an entry under the right-click key; the second call returns too
  (it does not raise) and leaves the registry as the first call left it, again without that
  entry. The same holds for \<^verbatim>\<open>text_selection_setting(ENABLE)\<close> and the text-selection
  key.
\<close>

theorem enable_twice:
  "fst (right_click_setting cfg (ENABLE cfg) self) = Returned \<and>
   ''RIGHT_CLICK'' \<notin> set (dict_keys (u_javascript_settings
       (snd (right_click_setting cfg (ENABLE cfg) self)))) \<and>
   fst (right_click_setting cfg (ENABLE cfg) (snd (right_click_setting cfg (ENABLE cfg) self)))
     = Returned \<and>
   ''RIGHT_CLICK'' \<notin> set (dict_keys (u_javascript_settings
       (snd (right_click_setting cfg (ENABLE cfg)
          (snd (right_click_setting cfg (ENABLE cfg) self)))))) \<and>
   u_javascript_settings (snd (right_click_setting cfg (ENABLE cfg)
       (snd (right_click_setting cfg (ENABLE cfg) self)))) =
     u_javascript_settings (snd (right_click_setting cfg (ENABLE cfg) self)) \<and>
   fst (text_selection_setting cfg (ENABLE cfg) self) = Returned \<and>
   ''TEXT_SELECTION'' \<notin> set (dict_keys (u_javascript_settings
       (snd (text_selection_setting cfg (ENABLE cfg) self)))) \<and>
   fst (text_selection_setting cfg (ENABLE cfg)
       (snd (text_selection_setting cfg (ENABLE cfg) self))) = Returned \<and>
   ''TEXT_SELECTION'' \<notin> set (dict_keys (u_javascript_settings
       (snd (text_selection_setting cfg (ENABLE cfg)
          (snd (text_selection_setting cfg (ENABLE cfg) self)))))) \<and>
   u_javascript_settings (snd (text_selection_setting cfg (ENABLE cfg)
       (snd (text_selection_setting cfg (ENABLE cfg) self)))) =
     u_javascript_settings (snd (text_selection_setting cfg (ENABLE cfg) self))"
proof -
  have rc: "''RIGHT_CLICK'' \<notin> set (dict_keys (dict_pop RIGHT_CLICK_SETTING_KEY d))" for d
    using key_dict_pop [of RIGHT_CLICK_SETTING_KEY d] by (simp add: RIGHT_CLICK_SETTING_KEY_def)
  have ts: "''TEXT_SELECTION'' \<notin> set (dict_keys (dict_pop TEXT_SELECTION_SETTING_KEY d))" for d
    using key_dict_pop [of TEXT_SELECTION_SETTING_KEY d]
    by (simp add: TEXT_SELECTION_SETTING_KEY_def)
  show ?thesis
    by (simp add: right_click_ENABLE text_selection_ENABLE dict_pop_idem rc ts)
qed

text \<open>
  Starting from a registry that holds both overrides, where each first call has an entry to
  remove.
\<close>

theorem enable_twice_witness:
  "''RIGHT_CLICK'' \<in> set (dict_keys (u_javascript_settings example_overridden)) \<and>
   ''RIGHT_CLICK'' \<notin> set (dict_keys (u_javascript_settings
       (snd (right_click_setting example_settings 1 example_overridden)))) \<and>
   fst (right_click_setting example_settings 1
       (snd (right_click_setting example_settings 1 example_overridden))) = Returned \<and>
   ''TEXT_SELECTION'' \<in> set (dict_keys (u_javascript_settings example_overridden)) \<and>
   ''TEXT_SELECTION'' \<notin> set (dict_keys (u_javascript_settings
       (snd (text_selection_setting example_settings 1 example_overridden)))) \<and>
   fst (text_selection_setting example_settings 1
       (snd (text_selection_setting example_settings 1 example_overridden))) = Returned"
proof -
  have e: "ENABLE example_settings = 1"
    by (simp add: example_settings_def)
  have k: "''RIGHT_CLICK'' \<in> set (dict_keys (u_javascript_settings example_overridden))"
    "''TEXT_SELECTION'' \<in> set (dict_keys (u_javascript_settings example_overridden))"
    by (simp_all add: example_overridden_def dict_keys_def RIGHT_CLICK_SETTING_KEY_def
        TEXT_SELECTION_SETTING_KEY_def)
  show ?thesis
    using enable_twice [of example_settings example_overridden] k
    by (simp only: e) blast
qed

section \<open>The constructor\<close>

text \<open>
  C6. Constructing the application when an application object already exists raises
  \<^verbatim>\<open>RuntimeError\<close> (''Another htmlPy application is already running'') and leaves the
  process as it was, unless \<^verbatim>\<open>allow_overwrite\<close> is passed: then no application object is
  made, the process is left as it was, and the instance built holds the existing object.
  When none exists, a new application object is made and becomes the process's instance,
  and the instance built holds it.

  In the last two cases an instance is built whenever the window starts maximized or the
  geometry arguments fit the C integers of the widget; otherwise the \<^verbatim>\<open>OverflowError\<close> of
  the widget ends the constructor, after the application object was chosen.
\<close>

theorem singleton_application:
  "(QApplication_instance p = Some existing \<and> \<not> arg_allow_overwrite args \<longrightarrow>
      BaseGUI_init args p =
        (Inl (RuntimeError ''Another htmlPy application is already running''), p)) \<and>
   (QApplication_instance p = Some existing \<and> arg_allow_overwrite args \<longrightarrow>
      snd (BaseGUI_init args p) = p \<and>
      (\<forall>self. fst (BaseGUI_init args p) = Inr self \<longrightarrow> app self = existing) \<and>
      (arg_maximized args \<or> geometry_fits args \<longrightarrow>
         (\<exists>self. BaseGUI_init args p = (Inr self, p) \<and> app self = existing)) \<and>
      (\<not> (arg_maximized args \<or> geometry_fits args) \<longrightarrow>
         BaseGUI_init args p = (Inl OverflowError, p))) \<and>
   (QApplication_instance p = None \<longrightarrow>
      snd (BaseGUI_init args p) =
        p\<lparr>QApplication_instance := Some (QApplication_made p),
          QApplication_made := Suc (QApplication_made p)\<rparr> \<and>
      (\<forall>self. fst (BaseGUI_init args p) = Inr self \<longrightarrow> app self = QApplication_made p) \<and>
      (arg_maximized args \<or> geometry_fits args \<longrightarrow>
         (\<exists>self. BaseGUI_init args p =
            (Inr self, p\<lparr>QApplication_instance := Some (QApplication_made p),
                         QApplication_made := Suc (QApplication_made p)\<rparr>) \<and>
          app self = QApplication_made p)) \<and>
      (\<not> (arg_maximized args \<or> geometry_fits args) \<longrightarrow>
         BaseGUI_init args p =
           (Inl OverflowError, p\<lparr>QApplication_instance := Some (QApplication_made p),
                                 QApplication_made := Suc (QApplication_made p)\<rparr>)))"
proof (intro conjI impI allI)
  assume "QApplication_instance p = Some existing \<and> \<not> arg_allow_overwrite args"
  then show "BaseGUI_init args p =
      (Inl (RuntimeError ''Another htmlPy application is already running''), p)"
    by (simp add: BaseGUI_init_cases)
next
  assume h: "QApplication_instance p = Some existing \<and> arg_allow_overwrite args"
  then have run: "BaseGUI_init args p = (init_body args existing, p)"
    by (simp add: BaseGUI_init_cases)
  show "snd (BaseGUI_init args p) = p"
    by (simp add: run)
  show "app self = existing" if "fst (BaseGUI_init args p) = Inr self" for self
    using that init_body_Inr [of args existing self] by (simp add: run)
  show "\<exists>self. BaseGUI_init args p = (Inr self, p) \<and> app self = existing"
    if "arg_maximized args \<or> geometry_fits args"
    using init_body_fits [OF that, of existing] by (simp add: run)
  show "BaseGUI_init args p = (Inl OverflowError, p)"
    if "\<not> (arg_maximized args \<or> geometry_fits args)"
    using init_body_overflow [OF that, of existing] by (simp add: run)
next
  assume h: "QApplication_instance p = None"
  then have run: "BaseGUI_init args p =
      (init_body args (QApplication_made p),
       p\<lparr>QApplication_instance := Some (QApplication_made p),
         QApplication_made := Suc (QApplication_made p)\<rparr>)"
    by (simp add: BaseGUI_init_cases QApplication_new_def)
  show "snd (BaseGUI_init args p) =
      p\<lparr>QApplication_instance := Some (QApplication_made p),
        QApplication_made := Suc (QApplication_made p)\<rparr>"
    by (simp add: run)
  show "app self = QApplication_made p" if "fst (BaseGUI_init args p) = Inr self" for self
    using that init_body_Inr [of args "QApplication_made p" self] by (simp add: run)
  show "\<exists>self. BaseGUI_init args p =
          (Inr self, p\<lparr>QApplication_instance := Some (QApplication_made p),
                       QApplication_made := Suc (QApplication_made p)\<rparr>) \<and>
        app self = QApplication_made p"
    if "arg_maximized args \<or> geometry_fits args"
    using init_body_fits [OF that, of "QApplication_made p"] by (simp add: run)
  show "BaseGUI_init args p =
      (Inl OverflowError, p\<lparr>QApplication_instance := Some (QApplication_made p),
                            QApplication_made := Suc (QApplication_made p)\<rparr>)"
    if "\<not> (arg_maximized args \<or> geometry_fits args)"
    using init_body_overflow [OF that, of "QApplication_made p"] by (simp add: run)
qed

text \<open>
  A first construction in a fresh process, then a second one in the process it leaves, without
  and with \<^verbatim>\<open>allow_overwrite\<close>; and a first construction with a width of \<open>2 ^ 31\<close>, which
  makes the application object and then raises.
\<close>

theorem singleton_application_witness:
  "QApplication_instance example_process = None \<and>
   geometry_fits default_args \<and>
   (\<exists>self. BaseGUI_init default_args example_process =
      (Inr self, \<lparr>QApplication_instance = Some 0, QApplication_made = 1\<rparr>) \<and> app self = 0) \<and>
   \<not> arg_allow_overwrite default_args \<and>
   BaseGUI_init default_args \<lparr>QApplication_instance = Some 0, QApplication_made = 1\<rparr> =
     (Inl (RuntimeError ''Another htmlPy application is already running''),
      \<lparr>QApplication_instance = Some 0, QApplication_made = 1\<rparr>) \<and>
   (\<exists>self. BaseGUI_init (default_args\<lparr>arg_allow_overwrite := True\<rparr>)
        \<lparr>QApplication_instance = Some 0, QApplication_made = 1\<rparr> =
      (Inr self, \<lparr>QApplication_instance = Some 0, QApplication_made = 1\<rparr>) \<and> app self = 0) \<and>
   \<not> (arg_maximized example_wide_args \<or> geometry_fits example_wide_args) \<and>
   BaseGUI_init example_wide_args example_process =
     (Inl OverflowError, \<lparr>QApplication_instance = Some 0, QApplication_made = 1\<rparr>)"
proof -
  have n: "QApplication_instance example_process = None"
    "QApplication_made example_process = 0"
    "example_process\<lparr>QApplication_instance := Some 0, QApplication_made := Suc 0\<rparr> =
       \<lparr>QApplication_instance = Some 0, QApplication_made = 1\<rparr>"
    by (simp_all add: example_process_def)
  have a: "\<not> arg_allow_overwrite default_args"
    "arg_allow_overwrite (default_args\<lparr>arg_allow_overwrite := True\<rparr>)"
    by (simp_all add: default_args_def)
  have g: "geometry_fits default_args"
    "geometry_fits (default_args\<lparr>arg_allow_overwrite := True\<rparr>)"
    by (simp_all add: default_args_def geometry_fits_def c_int_def)
  have w: "\<not> (arg_maximized example_wide_args \<or> geometry_fits example_wide_args)"
    by (simp add: example_wide_args_def default_args_def geometry_fits_def c_int_def)
  have s: "QApplication_instance \<lparr>QApplication_instance = Some 0, QApplication_made = 1\<rparr> = Some 0"
    by simp
  note fresh = singleton_application [of example_process _ default_args]
  note refused = singleton_application
    [of "\<lparr>QApplication_instance = Some 0, QApplication_made = 1\<rparr>" 0 default_args]
  note reused = singleton_application
    [of "\<lparr>QApplication_instance = Some 0, QApplication_made = 1\<rparr>" 0
        "default_args\<lparr>arg_allow_overwrite := True\<rparr>"]
  note wide = singleton_application [of example_process _ example_wide_args]
  have r1: "\<exists>self. BaseGUI_init default_args example_process =
      (Inr self, \<lparr>QApplication_instance = Some 0, QApplication_made = 1\<rparr>) \<and> app self = 0"
    using fresh n g(1) by simp
  have r2: "BaseGUI_init default_args \<lparr>QApplication_instance = Some 0, QApplication_made = 1\<rparr> =
     (Inl (RuntimeError ''Another htmlPy application is already running''),
      \<lparr>QApplication_instance = Some 0, QApplication_made = 1\<rparr>)"
    using refused a(1) s by blast
  have r3: "\<exists>self. BaseGUI_init (default_args\<lparr>arg_allow_overwrite := True\<rparr>)
        \<lparr>QApplication_instance = Some 0, QApplication_made = 1\<rparr> =
      (Inr self, \<lparr>QApplication_instance = Some 0, QApplication_made = 1\<rparr>) \<and> app self = 0"
    using reused a(2) s g(2) by blast
  have r4: "BaseGUI_init example_wide_args example_process =
     (Inl OverflowError, \<lparr>QApplication_instance = Some 0, QApplication_made = 1\<rparr>)"
    using wide n w by simp
  from n(1) g(1) a(1) w r1 r2 r3 r4 show ?thesis
    by blast
qed

section \<open>Geometry\<close>

text \<open>
  C7. \<^verbatim>\<open>auto_resize\<close> applies the cached width and height and the cached position to the
  widget, \<^verbatim>\<open>resize\<close> first and \<^verbatim>\<open>move\<close> second, if and only if the window is not
  maximized; when it is maximized the instance, and so the widget, is left as it was. In
  every case the four cached integers are what they were: nothing is read back from the
  widget into the cache.

  The two calls are made whenever the cached integers fit the C integers of the widget.
  When the window is not maximized and one of them does not fit, the \<^verbatim>\<open>OverflowError\<close> of
  the widget comes out of \<^verbatim>\<open>auto_resize\<close>: from \<^verbatim>\<open>resize\<close> with no call made, or from
  \<^verbatim>\<open>move\<close> after the \<^verbatim>\<open>resize\<close>. A call that returns has made both calls exactly when
  the window was not maximized, and no call at all when it was.
\<close>

theorem auto_resize_applies_cache:
  "(maximized_get self \<longleftrightarrow> QWidget_isMaximized (window self)) \<and>
   (\<not> maximized_get self \<and> c_int (u_width self) \<and> c_int (u_height self) \<and>
    c_int (u_x self) \<and> c_int (u_y self) \<longrightarrow>
      auto_resize self =
        (Returned,
         self\<lparr>window := (window self)\<lparr>qt_calls := qt_calls (window self) @
            [Resize (u_width self) (u_height self), Move (u_x self) (u_y self)]\<rparr>\<rparr>) \<and>
      qt_calls (window (snd (auto_resize self))) =
        qt_calls (window self) @
          [Resize (u_width self) (u_height self), Move (u_x self) (u_y self)]) \<and>
   (maximized_get self \<longrightarrow> auto_resize self = (Returned, self)) \<and>
   (fst (auto_resize self) = Returned \<longrightarrow>
      (qt_calls (window (snd (auto_resize self))) =
         qt_calls (window self) @
           [Resize (u_width self) (u_height self), Move (u_x self) (u_y self)]
       \<longleftrightarrow> \<not> maximized_get self) \<and>
      (qt_calls (window (snd (auto_resize self))) \<noteq> qt_calls (window self)
       \<longleftrightarrow> \<not> maximized_get self)) \<and>
   (\<not> maximized_get self \<and> \<not> (c_int (u_width self) \<and> c_int (u_height self)) \<longrightarrow>
      auto_resize self = (Raised OverflowError, self)) \<and>
   (\<not> maximized_get self \<and> c_int (u_width self) \<and> c_int (u_height self) \<and>
    \<not> (c_int (u_x self) \<and> c_int (u_y self)) \<longrightarrow>
      fst (auto_resize self) = Raised OverflowError \<and>
      qt_calls (window (snd (auto_resize self))) =
        qt_calls (window self) @ [Resize (u_width self) (u_height self)]) \<and>
   u_width (snd (auto_resize self)) = u_width self \<and>
   u_height (snd (auto_resize self)) = u_height self \<and>
   u_x (snd (auto_resize self)) = u_x self \<and>
   u_y (snd (auto_resize self)) = u_y self"
  by (simp add: auto_resize_eq maximized_get_eq QWidget_isMaximized_def)

text \<open>
  The instance built from the defaults, which is not maximized; the same instance after
  \<^verbatim>\<open>maximized = True\<close>; and the same instance with a cached width of \<open>2 ^ 31\<close>.
\<close>

theorem auto_resize_applies_cache_witness:
  "\<not> maximized_get example_gui \<and>
   c_int (u_width example_gui) \<and> c_int (u_height example_gui) \<and>
   c_int (u_x example_gui) \<and> c_int (u_y example_gui) \<and>
   fst (auto_resize example_gui) = Returned \<and>
   qt_calls (window (snd (auto_resize example_gui))) =
     qt_calls (window example_gui) @ [Resize 800 600, Move 10 10] \<and>
   maximized_get (snd (maximized_set example_gui True)) \<and>
   auto_resize (snd (maximized_set example_gui True)) =
     (Returned, snd (maximized_set example_gui True)) \<and>
   u_width (snd (auto_resize example_gui)) = 800 \<and>
   \<not> maximized_get (example_gui\<lparr>u_width := 2147483648\<rparr>) \<and>
   \<not> c_int (u_width (example_gui\<lparr>u_width := 2147483648\<rparr>)) \<and>
   auto_resize (example_gui\<lparr>u_width := 2147483648\<rparr>) =
     (Raised OverflowError, example_gui\<lparr>u_width := 2147483648\<rparr>)"
proof -
  have n: "\<not> maximized_get example_gui"
    "\<not> maximized_get (example_gui\<lparr>u_width := 2147483648\<rparr>)"
    by (simp_all add: maximized_get_eq example_gui_def)
  have m: "maximized_get (snd (maximized_set example_gui True))"
    by (simp add: maximized_get_eq maximized_set_eq)
  have g: "u_width example_gui = 800" "u_height example_gui = 600"
    "u_x example_gui = 10" "u_y example_gui = 10"
    by (simp_all add: example_gui_def)
  have c: "c_int (u_width example_gui)" "c_int (u_height example_gui)"
    "c_int (u_x example_gui)" "c_int (u_y example_gui)"
    by (simp_all add: g c_int_def)
  have o: "\<not> c_int (u_width (example_gui\<lparr>u_width := 2147483648\<rparr>))"
    by (simp add: c_int_def)
  note fits = auto_resize_applies_cache [of example_gui]
  have r0: "fst (auto_resize example_gui) = Returned"
    using fits n(1) c by simp
  have "qt_calls (window (snd (auto_resize example_gui))) =
     qt_calls (window example_gui) @
       [Resize (u_width example_gui) (u_height example_gui),
        Move (u_x example_gui) (u_y example_gui)]"
    using fits n(1) c by blast
  then have r1: "qt_calls (window (snd (auto_resize example_gui))) =
     qt_calls (window example_gui) @ [Resize 800 600, Move 10 10]"
    by (simp only: g)
  have r2: "auto_resize (snd (maximized_set example_gui True)) =
     (Returned, snd (maximized_set example_gui True))"
    using auto_resize_applies_cache [of "snd (maximized_set example_gui True)"] m by blast
  have "u_width (snd (auto_resize example_gui)) = u_width example_gui"
    using fits by blast
  then have r3: "u_width (snd (auto_resize example_gui)) = 800"
    by (simp only: g)
  have r4: "auto_resize (example_gui\<lparr>u_width := 2147483648\<rparr>) =
     (Raised OverflowError, example_gui\<lparr>u_width := 2147483648\<rparr>)"
    using auto_resize_applies_cache [of "example_gui\<lparr>u_width := 2147483648\<rparr>"] n(2) o
    by blast
  from n m c o r0 r1 r2 r3 r4 show ?thesis
    by blast
qed

text \<open>
  C4. Setting \<^verbatim>\<open>maximized\<close> to \<^verbatim>\<open>False\<close> restores the window and then reapplies the
  cached geometry with \<^verbatim>\<open>resize\<close> and \<^verbatim>\<open>move\<close>.

  The code does the first and not the second. The write function is
  \<^verbatim>\<open>showNormal() and auto_resize()\<close>; \<^verbatim>\<open>showNormal\<close> returns \<^verbatim>\<open>None\<close>, so the right
  operand is never evaluated. On the instance built from the defaults in a fresh process,
  \<^verbatim>\<open>maximized = True\<close> followed by \<^verbatim>\<open>maximized = False\<close> sends the widget
  \<^verbatim>\<open>showMaximized\<close> and \<^verbatim>\<open>showNormal\<close> and nothing more; the \<^verbatim>\<open>resize(800, 600)\<close> and
  \<^verbatim>\<open>move(10, 10)\<close> that the claim expects are sent only by a separate call of
  \<^verbatim>\<open>auto_resize\<close>.
\<close>

theorem maximized_False_skips_auto_resize:
  "BaseGUI_init default_args \<lparr>QApplication_instance = None, QApplication_made = 0\<rparr> =
     (Inr example_gui, \<lparr>QApplication_instance = Some 0, QApplication_made = 1\<rparr>) \<and>
   u_width example_gui = 800 \<and> u_height example_gui = 600 \<and>
   u_x example_gui = 10 \<and> u_y example_gui = 10 \<and>
   fst (maximized_set example_gui True) = Returned \<and>
   qt_calls (window (snd (maximized_set example_gui True))) =
     qt_calls (window example_gui) @ [ShowMaximized] \<and>
   fst (maximized_set (snd (maximized_set example_gui True)) False) = Returned \<and>
   qt_calls (window (snd (maximized_set (snd (maximized_set example_gui True)) False))) =
     qt_calls (window example_gui) @ [ShowMaximized, ShowNormal] \<and>
   snd (maximized_set (snd (maximized_set example_gui True)) False) =
     example_gui\<lparr>window := (window example_gui)
        \<lparr>qt_calls := qt_calls (window example_gui) @ [ShowMaximized, ShowNormal]\<rparr>\<rparr> \<and>
   qt_calls (window (snd (auto_resize
       (snd (maximized_set (snd (maximized_set example_gui True)) False))))) =
     qt_calls (window example_gui) @
       [ShowMaximized, ShowNormal, Resize 800 600, Move 10 10]"
proof -
  have b: "BaseGUI_init default_args \<lparr>QApplication_instance = None, QApplication_made = 0\<rparr> =
     (Inr example_gui, \<lparr>QApplication_instance = Some 0, QApplication_made = 1\<rparr>)"
    using BaseGUI_init_default by (simp add: example_process_def)
  show ?thesis
    by (simp add: b maximized_set_eq auto_resize_eq) (simp add: example_gui_def c_int_def)
qed

section \<open>The window title\<close>

text \<open>
  C8. On every \<^verbatim>\<open>titleChanged\<close> notification of the web view, the window title is set
  to the widget's current document title: \<^verbatim>\<open>adjustTitle\<close> makes the one call
  \<^verbatim>\<open>setWindowTitle(self.title())\<close>, the constructor of \<^verbatim>\<open>Browser\<close> connects it to the
  signal, and a notification that the title has become \<open>t\<close> leaves the window title \<open>t\<close>.
  The document title is not written, so the synchronisation goes one way.
\<close>

theorem title_changed_sets_window_title:
  "QWidget_windowTitle (adjustTitle w) = QWebView_title w \<and>
   QWebView_title (adjustTitle w) = QWebView_title w \<and>
   qt_calls (adjustTitle w) = qt_calls w @ [SetWindowTitle (QWebView_title w)] \<and>
   titleChanged Browser_init = [Slot_adjustTitle] \<and>
   (titleChanged w = [Slot_adjustTitle] \<longrightarrow>
      titleChanged_emit t w = adjustTitle (w\<lparr>qt_title := t\<rparr>) \<and>
      QWidget_windowTitle (titleChanged_emit t w) = t \<and>
      QWebView_title (titleChanged_emit t w) = t \<and>
      qt_calls (titleChanged_emit t w) = qt_calls w @ [SetWindowTitle t])"
  by (simp add: adjustTitle_def QWidget_setWindowTitle_def QWebView_title_def
      QWidget_windowTitle_def titleChanged_emit_def Browser_init_eq)

text \<open>
  A new widget, and the window of the instance built from the defaults, told that the
  document title is now ``Inbox''.
\<close>

theorem title_changed_sets_window_title_witness:
  "titleChanged Browser_init = [Slot_adjustTitle] \<and>
   QWidget_windowTitle (titleChanged_emit ''Inbox'' Browser_init) = ''Inbox'' \<and>
   titleChanged (window example_gui) = [Slot_adjustTitle] \<and>
   QWidget_windowTitle (window example_gui) = ''Application'' \<and>
   QWidget_windowTitle (titleChanged_emit ''Inbox'' (window example_gui)) = ''Inbox''"
proof -
  have c: "titleChanged Browser_init = [Slot_adjustTitle]"
    "titleChanged (window example_gui) = [Slot_adjustTitle]"
    by (simp_all add: Browser_init_eq example_gui_def)
  have a: "QWidget_windowTitle (window example_gui) = ''Application''"
    by (simp add: QWidget_windowTitle_def example_gui_def)
  have r1: "QWidget_windowTitle (titleChanged_emit ''Inbox'' Browser_init) = ''Inbox''"
    using title_changed_sets_window_title [of Browser_init "''Inbox''"] c(1) by blast
  have r2: "QWidget_windowTitle (titleChanged_emit ''Inbox'' (window example_gui)) = ''Inbox''"
    using title_changed_sets_window_title [of "window example_gui" "''Inbox''"] c(2) by blast
  from c a r1 r2 show ?thesis
    by blast
qed

text \<open>
  C10. Right after the widget is constructed, before any \<^verbatim>\<open>titleChanged\<close> notification,
  the window title is the placeholder \<^verbatim>\<open>Loading...\<close>; the constructor of the application
  then overwrites it with the caller's title: in every instance it builds, the title read
  back is the caller's, the first three calls on the widget are the placeholder title, the
  local-content attribute and the caller's title, and no later call of the constructor sets
  the window title.
\<close>

theorem placeholder_title:
  "QWidget_windowTitle Browser_init = ''Loading...'' \<and>
   qt_calls Browser_init = [SetWindowTitle ''Loading...''] \<and>
   (BaseGUI_init args p = (Inr self, p') \<longrightarrow>
      title_get self = arg_title args \<and>
      take 3 (qt_calls (window self)) =
        [SetWindowTitle ''Loading...'', SetAttribute LocalContentCanAccessRemoteUrls True,
         SetWindowTitle (arg_title args)] \<and>
      (\<forall>c \<in> set (drop 3 (qt_calls (window self))). \<forall>t. c \<noteq> SetWindowTitle t))"
proof (intro conjI impI)
  show "QWidget_windowTitle Browser_init = ''Loading...''"
    by (simp add: QWidget_windowTitle_def Browser_init_eq)
  show "qt_calls Browser_init = [SetWindowTitle ''Loading...'']"
    by (simp add: Browser_init_eq)
next
  assume "BaseGUI_init args p = (Inr self, p')"
  then obtain a where "init_body args a = Inr self"
    using BaseGUI_init_Inr by blast
  note self = init_body_Inr [OF this]
  show "title_get self = arg_title args"
    by (subst self)
      (simp add: title_get_def LiveProperty_get_def title_fget_def QWidget_windowTitle_def)
  show "take 3 (qt_calls (window self)) =
        [SetWindowTitle ''Loading...'', SetAttribute LocalContentCanAccessRemoteUrls True,
         SetWindowTitle (arg_title args)]"
    by (subst self) simp
  show "\<forall>c \<in> set (drop 3 (qt_calls (window self))). \<forall>t. c \<noteq> SetWindowTitle t"
    by (subst self) simp
qed

text \<open>The construction from the defaults in a fresh process.\<close>

theorem placeholder_title_witness:
  "BaseGUI_init default_args example_process =
     (Inr example_gui, \<lparr>QApplication_instance = Some 0, QApplication_made = 1\<rparr>) \<and>
   title_get example_gui = ''Application'' \<and>
   take 3 (qt_calls (window example_gui)) =
     [SetWindowTitle ''Loading...'', SetAttribute LocalContentCanAccessRemoteUrls True,
      SetWindowTitle ''Application'']"
proof -
  note b = BaseGUI_init_default
  have t: "arg_title default_args = ''Application''"
    by (simp add: default_args_def)
  show ?thesis
    using placeholder_title [of default_args example_process example_gui
        "\<lparr>QApplication_instance = Some 0, QApplication_made = 1\<rparr>"] b
    by (simp only: t)
qed

section \<open>The registry invariant is kept\<close>

text \<open>
  C9. The registry built by the constructor satisfies the invariant \<open>registry_inv\<close>, and
  every call of a setter, with any argument, valid or not, keeps it. In a registry that
  satisfies it the keys are among \<^verbatim>\<open>RIGHT_CLICK\<close> and \<^verbatim>\<open>TEXT_SELECTION\<close>, the value under
  the right-click key is \<^verbatim>\<open>RIGHT_CLICK_DISABLE\<close> or \<^verbatim>\<open>RIGHT_CLICK_INPUTS_ONLY\<close>, the value
  under the text-selection key is \<^verbatim>\<open>TEXT_SELECTION_DISABLE\<close>, and no value is one of the
  two enabling scripts.
\<close>

theorem registry_invariant:
  "(BaseGUI_init args p = (Inr self0, p') \<longrightarrow> registry_inv (u_javascript_settings self0)) \<and>
   (registry_inv (u_javascript_settings self) \<longrightarrow>
      registry_inv (u_javascript_settings (snd (right_click_setting cfg v self))) \<and>
      registry_inv (u_javascript_settings (snd (text_selection_setting cfg v self)))) \<and>
   (registry_inv d \<longrightarrow>
      set (dict_keys d) \<subseteq> {''RIGHT_CLICK'', ''TEXT_SELECTION''} \<and>
      (\<forall>item \<in> set d.
         (fst item = ''RIGHT_CLICK'' \<longrightarrow>
            snd item = RIGHT_CLICK_DISABLE \<or> snd item = RIGHT_CLICK_INPUTS_ONLY) \<and>
         (fst item = ''TEXT_SELECTION'' \<longrightarrow> snd item = TEXT_SELECTION_DISABLE) \<and>
         snd item \<noteq> RIGHT_CLICK_ENABLE \<and> snd item \<noteq> TEXT_SELECTION_ENABLE))"
proof (intro conjI impI)
  assume "BaseGUI_init args p = (Inr self0, p')"
  then obtain a where "init_body args a = Inr self0"
    using BaseGUI_init_Inr by blast
  from init_body_Inr [OF this] have "u_javascript_settings self0 = []"
    by simp
  then show "registry_inv (u_javascript_settings self0)"
    by (simp add: registry_inv_def)
next
  assume "registry_inv (u_javascript_settings self)"
  then show "registry_inv (u_javascript_settings (snd (right_click_setting cfg v self)))"
    by (rule registry_inv_right_click)
next
  assume "registry_inv (u_javascript_settings self)"
  then show "registry_inv (u_javascript_settings (snd (text_selection_setting cfg v self)))"
    by (rule registry_inv_text_selection)
next
  assume inv: "registry_inv d"
  show "set (dict_keys d) \<subseteq> {''RIGHT_CLICK'', ''TEXT_SELECTION''}"
  proof
    fix k assume "k \<in> set (dict_keys d)"
    then obtain item where "item \<in> set d" "fst item = k"
      by (auto simp: dict_keys_def)
    with inv show "k \<in> {''RIGHT_CLICK'', ''TEXT_SELECTION''}"
      using allowed_item_keys [of item] by (auto simp: registry_inv_def list_all_iff)
  qed
  show "\<forall>item \<in> set d.
         (fst item = ''RIGHT_CLICK'' \<longrightarrow>
            snd item = RIGHT_CLICK_DISABLE \<or> snd item = RIGHT_CLICK_INPUTS_ONLY) \<and>
         (fst item = ''TEXT_SELECTION'' \<longrightarrow> snd item = TEXT_SELECTION_DISABLE) \<and>
         snd item \<noteq> RIGHT_CLICK_ENABLE \<and> snd item \<noteq> TEXT_SELECTION_ENABLE"
  proof
    fix item assume "item \<in> set d"
    with inv have ok: "allowed_item item"
      by (simp add: registry_inv_def list_all_iff)
    show "(fst item = ''RIGHT_CLICK'' \<longrightarrow>
            snd item = RIGHT_CLICK_DISABLE \<or> snd item = RIGHT_CLICK_INPUTS_ONLY) \<and>
         (fst item = ''TEXT_SELECTION'' \<longrightarrow> snd item = TEXT_SELECTION_DISABLE) \<and>
         snd item \<noteq> RIGHT_CLICK_ENABLE \<and> snd item \<noteq> TEXT_SELECTION_ENABLE"
      using allowed_item_keys [OF ok] allowed_item_not_enabling [OF ok] by auto
  qed
qed

text \<open>
  The construction from the defaults, then \<^verbatim>\<open>INPUTS_ONLY\<close> for right-click and the invalid
  value 7 for text selection on the instance with both settings overridden.
\<close>

theorem registry_invariant_witness:
  "BaseGUI_init default_args example_process =
     (Inr example_gui, \<lparr>QApplication_instance = Some 0, QApplication_made = 1\<rparr>) \<and>
   registry_inv (u_javascript_settings example_gui) \<and>
   registry_inv (u_javascript_settings example_overridden) \<and>
   registry_inv (u_javascript_settings
     (snd (right_click_setting example_settings 2 example_overridden))) \<and>
   registry_inv (u_javascript_settings
     (snd (text_selection_setting example_settings 7 example_overridden))) \<and>
   set (dict_keys (u_javascript_settings example_overridden)) \<subseteq>
     {''RIGHT_CLICK'', ''TEXT_SELECTION''}"
proof -
  note b = BaseGUI_init_default
  note inv = registry_inv_example_overridden
  have r1: "registry_inv (u_javascript_settings example_gui)"
    using registry_invariant [of default_args example_process example_gui
        "\<lparr>QApplication_instance = Some 0, QApplication_made = 1\<rparr>"] b
    by blast
  have r2: "registry_inv (u_javascript_settings
       (snd (right_click_setting example_settings 2 example_overridden)))"
    using registry_invariant [of _ _ _ _ example_overridden example_settings 2] inv
    by blast
  have r3: "registry_inv (u_javascript_settings
       (snd (text_selection_setting example_settings 7 example_overridden)))"
    using registry_invariant [of _ _ _ _ example_overridden example_settings 7] inv
    by blast
  have r4: "set (dict_keys (u_javascript_settings example_overridden)) \<subseteq>
     {''RIGHT_CLICK'', ''TEXT_SELECTION''}"
    using registry_invariant [of _ _ _ _ _ _ _ "u_javascript_settings example_overridden"] inv
    by blast
  from b inv r1 r2 r3 r4 show ?thesis
    by blast
qed

end
